theory Spec2Isabelle
  imports Complex_Main "HOL-Library.Word"
begin

unbundle bit_operations_syntax

section \<open>Exceptions\<close>

text \<open>
  Every exception the modelled code can raise is a value; a function that may raise returns
  \<open>error + 'a\<close> with \<open>Inl\<close> for the exception. The string is the exception's message.
  The last three are the errors of the requirement registry, which the specification names.
\<close>

datatype error =
    ValueError string
  | NotImplementedError string
  | KeyError string
  | IndexError string
  | DuplicateRequirementError string
  | UnknownRequirementError string
  | RequirementUnmetError string

section \<open>Arrays\<close>

text \<open>
  A numpy array is its shape, its dtype and its elements. The elements are kept nested, one
  level per axis, so that \<open>array[i][j]\<close> is the \<open>j\<close>-th child of the \<open>i\<close>-th child;
  flattening in row-major (C) order is then a real operation on the data.
\<close>

datatype dtype = np_bool | np_uint8 | np_int64 | np_float64



datatype 'a nd = Elem 'a | Dim "'a nd list"

record 'a ndarray =
  shape :: "nat list"
  dtype :: dtype
  items :: "'a nd"

definition ndim :: "'a ndarray \<Rightarrow> nat" where
  "ndim array = length (shape array)"


text \<open>\<open>array.flatten().tolist()\<close>: the elements in row-major order.\<close>

fun flatten :: "'a nd \<Rightarrow> 'a list" where
  "flatten (Elem x) = [x]"
| "flatten (Dim ts) = concat (map flatten ts)"





section \<open>Schema objects\<close>

text \<open>
  The classes of \<open>microscopemetrics_schema.datamodel\<close> are records of the fields the
  constructors are given.
\<close>

datatype PixelSeries = PixelSeries (pixel_values: nat)
datatype TimeSeries = TimeSeries (time_values: nat)
datatype ChannelSeries = ChannelSeries (channel_values: nat)

datatype urls = Url string | Urls "string list"


record 'a Image2D =
  i2_name :: "string option"
  i2_description :: "string option"
  i2_image_url :: "string option"
  i2_source_image_url :: "urls option"
  i2_data :: "'a list"
  i2_y :: PixelSeries
  i2_x :: PixelSeries

record 'a Image5D =
  i5_name :: "string option"
  i5_description :: "string option"
  i5_image_url :: "string option"
  i5_source_image_url :: "urls option"
  i5_data :: "'a list"
  i5_t :: TimeSeries
  i5_z :: PixelSeries
  i5_y :: PixelSeries
  i5_x :: PixelSeries
  i5_c :: ChannelSeries

datatype 'a ImageInline = Image2D "'a Image2D" | Image5D "'a Image5D"

section \<open>Conversions\<close>


text \<open>Python's \<open>str\<close> of a non-negative integer, as the f-string of the error message prints it.\<close>

definition digit_char :: "nat \<Rightarrow> char" where
  "digit_char d = ''0123456789'' ! d"

fun str_nat :: "nat \<Rightarrow> string" where
  "str_nat n = (if n < 10 then [digit_char n] else str_nat (n div 10) @ [digit_char (n mod 10)])"

declare str_nat.simps [simp del]

definition numpy_to_inlined_image ::
  "'a ndarray \<Rightarrow> string option \<Rightarrow> string option \<Rightarrow> string option \<Rightarrow> urls option
     \<Rightarrow> error + 'a ImageInline" where
  "numpy_to_inlined_image array name description image_url source_image_url =
     (if ndim array = 5 then
        Inr (Image5D \<lparr>i5_name = name,
                      i5_description = description,
                      i5_image_url = image_url,
                      i5_source_image_url = source_image_url,
                      i5_data = flatten (items array),
                      i5_t = TimeSeries (shape array ! 0),
                      i5_z = PixelSeries (shape array ! 1),
                      i5_y = PixelSeries (shape array ! 2),
                      i5_x = PixelSeries (shape array ! 3),
                      i5_c = ChannelSeries (shape array ! 4)\<rparr>)
      else if ndim array = 2 then
        Inr (Image2D \<lparr>i2_name = name,
                      i2_description = description,
                      i2_image_url = image_url,
                      i2_source_image_url = source_image_url,
                      i2_data = flatten (items array),
                      i2_y = PixelSeries (shape array ! 0),
                      i2_x = PixelSeries (shape array ! 1)\<rparr>)
      else
        Inl (NotImplementedError
               (''Array of dimension '' @ str_nat (ndim array) @
                '' is not supported by this function'')))"

text \<open>
  A Python dictionary keeps its entries in insertion order and has no key twice: an
  association list with distinct keys. \<open>dictionary[k]\<close> raises \<open>KeyError\<close> for a missing key.
\<close>

type_synonym 'v dict = "(string \<times> 'v) list"







section \<open>Analysis registries\<close>

text \<open>
  A class object is its \<open>__name__\<close> and an identity, so that two classes of one name differ.
  The three module-level dictionaries are the state the decorators update.
\<close>

record pyclass =
  class_name :: string
  class_id :: nat

record registries =
  IMAGE_ANALYSIS_REGISTRY :: "string \<rightharpoonup> pyclass"
  DATASET_ANALYSIS_REGISTRY :: "string \<rightharpoonup> pyclass"
  PROGRESSION_ANALYSIS_REGISTRY :: "string \<rightharpoonup> pyclass"

definition register_image_analysis :: "pyclass \<Rightarrow> registries \<Rightarrow> pyclass \<times> registries" where
  "register_image_analysis cls g =
     (cls, g\<lparr>IMAGE_ANALYSIS_REGISTRY := (IMAGE_ANALYSIS_REGISTRY g)(class_name cls \<mapsto> cls)\<rparr>)"

definition register_dataset_analysis :: "pyclass \<Rightarrow> registries \<Rightarrow> pyclass \<times> registries" where
  "register_dataset_analysis cls g =
     (cls, g\<lparr>DATASET_ANALYSIS_REGISTRY := (DATASET_ANALYSIS_REGISTRY g)(class_name cls \<mapsto> cls)\<rparr>)"

definition register_progression_analysis :: "pyclass \<Rightarrow> registries \<Rightarrow> pyclass \<times> registries" where
  "register_progression_analysis cls g =
     (cls, g\<lparr>PROGRESSION_ANALYSIS_REGISTRY :=
                (PROGRESSION_ANALYSIS_REGISTRY g)(class_name cls \<mapsto> cls)\<rparr>)"

text \<open>Reading a decimal numeral back, to state that a message carries a number.\<close>

definition digit_val :: "char \<Rightarrow> nat" where
  "digit_val c = of_char c - 48"

definition read_nat :: "string \<Rightarrow> nat" where
  "read_nat s = foldl (\<lambda>a c. 10 * a + digit_val c) 0 s"

section \<open>Sequencing and indexing\<close>

text \<open>Statements in sequence: the first exception raised ends the computation.\<close>

definition and_then :: "error + 'a \<Rightarrow> ('a \<Rightarrow> error + 'b) \<Rightarrow> error + 'b" where
  "and_then r f = (case r of Inl e \<Rightarrow> Inl e | Inr x \<Rightarrow> f x)"

fun traverse :: "('a \<Rightarrow> error + 'b) \<Rightarrow> 'a list \<Rightarrow> error + 'b list" where
  "traverse f [] = Inr []"
| "traverse f (x # xs) = and_then (f x) (\<lambda>y. and_then (traverse f xs) (\<lambda>ys. Inr (y # ys)))"

definition str_int :: "int \<Rightarrow> string" where
  "str_int i = (if i < 0 then ''-'' @ str_nat (nat (- i)) else str_nat (nat i))"

text \<open>\<open>xs[i]\<close> for a constant \<open>i \<ge> 0\<close>; out of range it raises \<open>IndexError\<close> with the given message.\<close>

definition item :: "'a list \<Rightarrow> nat \<Rightarrow> string \<Rightarrow> error + 'a" where
  "item xs i msg = (if i < length xs then Inr (xs ! i) else Inl (IndexError msg))"

text \<open>\<open>a, b = xs\<close>: unpacking into exactly two names.\<close>

fun unpack2 :: "'a list \<Rightarrow> error + 'a \<times> 'a" where
  "unpack2 [a, b] = Inr (a, b)"
| "unpack2 [] = Inl (ValueError ''not enough values to unpack (expected 2, got 0)'')"
| "unpack2 [a] = Inl (ValueError ''not enough values to unpack (expected 2, got 1)'')"
| "unpack2 (a # b # c # xs) = Inl (ValueError ''too many values to unpack (expected 2)'')"

text \<open>
  An index into an axis of size \<open>n\<close>: a negative index counts from the end, and an index
  outside \<open>[-n, n)\<close> raises \<open>IndexError\<close>.
\<close>

definition norm_index :: "nat \<Rightarrow> nat \<Rightarrow> int \<Rightarrow> error + nat" where
  "norm_index axis n i =
     (if 0 \<le> i \<and> i < int n then Inr (nat i)
      else if - int n \<le> i \<and> i < 0 then Inr (nat (i + int n))
      else Inl (IndexError (''index '' @ str_int i @ '' is out of bounds for axis '' @
                            str_nat axis @ '' with size '' @ str_nat n)))"

fun children :: "'a nd \<Rightarrow> 'a nd list" where
  "children (Dim ts) = ts"
| "children (Elem x) = []"

text \<open>
  \<open>img[rr, cc]\<close> with two index arrays of one length, on a 2-dimensional array: the indices of
  each axis are checked, then the elements are gathered. (With fewer axes numpy raises
  \<open>IndexError\<close> as here; the functions below only index arrays whose shape they have unpacked
  into two sizes.)
\<close>

definition take2 :: "'a ndarray \<Rightarrow> int list \<Rightarrow> int list \<Rightarrow> error + 'a list" where
  "take2 img rr cc =
     (case shape img of
        [n0, n1] \<Rightarrow>
          and_then (traverse (norm_index 0 n0) rr) (\<lambda>is.
          and_then (traverse (norm_index 1 n1) cc) (\<lambda>js.
          Inr (map (\<lambda>(i, j). flatten (children (items img) ! i) ! j) (zip is js))))
      | _ \<Rightarrow> Inl (IndexError ''too many indices for array''))"

text \<open>\<open>np.max\<close>: the largest element; a zero-size array has none and \<open>ValueError\<close> is raised.\<close>

definition np_max :: "int ndarray \<Rightarrow> error + int" where
  "np_max img =
     (case flatten (items img) of
        [] \<Rightarrow> Inl (ValueError
                 ''zero-size array to reduction operation maximum which has no identity'')
      | x # xs \<Rightarrow> Inr (fold max xs x))"

text \<open>
  \<open>np.where(cond)\<close>: one index array per axis, listing the positions of the true elements in
  row-major order.
\<close>

fun true_positions :: "bool nd \<Rightarrow> nat list list" where
  "true_positions (Elem b) = (if b then [[]] else [])"
| "true_positions (Dim ts) =
     concat (map (\<lambda>(i, ps). map (\<lambda>p. i # p) ps)
                 (zip [0..<length ts] (map true_positions ts)))"

definition np_where :: "nat \<Rightarrow> bool nd \<Rightarrow> nat list list" where
  "np_where n cond = map (\<lambda>k. map (\<lambda>p. p ! k) (true_positions cond)) [0..<n]"

text \<open>
  Python's \<open>round(n / 2)\<close> for an integer \<open>n\<close>: the quotient is exact, and a half is rounded
  to the even neighbour.
\<close>

definition py_round_half :: "int \<Rightarrow> int" where
  "py_round_half n =
     (if even n then n div 2 else if even (n div 2) then n div 2 else n div 2 + 1)"

text \<open>Python's \<open>int(x)\<close> of a finite float: truncation towards zero.\<close>

definition py_int :: "rat \<Rightarrow> int" where
  "py_int q = (if q < 0 then - \<lfloor>- q\<rfloor> else \<lfloor>q\<rfloor>)"

section \<open>Values of the analysis\<close>

text \<open>
  Floating-point arithmetic is not evaluated: a float result is the term of the operations
  that produce it, in the order the code applies them. \<open>FConst\<close> is a given finite float.
\<close>

datatype f64 =
    FConst rat
  | FInt int
  | FDiv f64 f64
  | FMul f64 f64
  | FRound f64
  | FAround f64 nat

datatype cell = CInt int | CFloat f64 | CStr string | CTuple "cell list"

text \<open>The payload of a table: a pandas data frame over an array, or a dictionary of columns.\<close>

datatype table_data = Frame "cell ndarray" | DictTable "cell list dict"

definition str_tuple :: "nat list \<Rightarrow> string" where
  "str_tuple ns =
     ''('' @ concat (map (\<lambda>(i, n). (if i = 0 then [] else '', '') @ str_nat n)
                       (zip [0..<length ns] ns)) @ '')''"

text \<open>
  \<open>pandas.DataFrame(array)\<close> takes a 1- or 2-dimensional array and raises \<open>ValueError\<close>
  otherwise.
\<close>

definition DataFrame :: "cell ndarray \<Rightarrow> error + table_data" where
  "DataFrame arr =
     (if ndim arr = 0 then Inl (ValueError ''DataFrame constructor not properly called!'')
      else if ndim arr \<le> 2 then Inr (Frame arr)
      else Inl (ValueError (''Must pass 2-d input. shape='' @ str_tuple (shape arr))))"

text \<open>
  The two functions of scikit-image the analysis calls are parameters of the model:
  \<open>draw.line\<close> gives the pixel coordinates of a segment, \<open>regionprops\<close> the regions of a
  label image, of which the code reads the centroid (floats) and the area.
\<close>

record region =
  centroid :: "rat list"
  area :: cell

record skimage =
  draw_line :: "int \<Rightarrow> int \<Rightarrow> int \<Rightarrow> int \<Rightarrow> (int \<times> int) list"
  regionprops :: "int ndarray \<Rightarrow> int ndarray \<Rightarrow> error + region list"

section \<open>The analysis base\<close>

text \<open>
  Modelled from the spec: the base class \<open>Analysis\<close> (its constructor, \<open>add_data_requirement\<close>,
  \<open>add_metadata_requirement\<close>, \<open>list_unmet_requirements\<close>, \<open>get_data_values\<close>, the \<open>output\<close>
  sequence) and the class \<open>model.Table\<close>, which \<open>field_illum.py\<close> uses and the source files do
  not define. A requirement descriptor has a name, a description, a type tag, optional
  units, an optionality flag and an optional default. An instance keeps the data and the
  metadata requirements apart, with the values bound to each, and its output sequence.
  The value of a data requirement is an array of integers.
\<close>

datatype type_tag = T_ndarray | T_int | T_float | T_tuple "type_tag list"

datatype pyvalue = IntVal int | TupleVal "pyvalue list"

record 'v requirement =
  req_name :: string
  req_description :: string
  req_data_type :: type_tag
  req_units :: "string option"
  req_optional :: bool
  req_default :: "'v option"

record Table =
  tbl_name :: string
  tbl_description :: string
  tbl_table :: table_data

record analysis =
  output_description :: string
  data_requirements :: "int ndarray requirement list"
  metadata_requirements :: "pyvalue requirement list"
  data_values :: "int ndarray dict"
  metadata_values :: "pyvalue dict"
  "output" :: "Table list"

definition Analysis_init :: "string \<Rightarrow> analysis" where
  "Analysis_init description =
     \<lparr>output_description = description, data_requirements = [], metadata_requirements = [],
      data_values = [], metadata_values = [], output = []\<rparr>"

text \<open>Registration fails with \<open>DuplicateRequirementError\<close> for a name already in the namespace.\<close>

definition add_data_requirement ::
  "analysis \<Rightarrow> string \<Rightarrow> string \<Rightarrow> type_tag \<Rightarrow> string option \<Rightarrow> bool \<Rightarrow> int ndarray option
     \<Rightarrow> error + analysis" where
  "add_data_requirement self name description data_type units optional default_value =
     (if name \<in> set (map req_name (data_requirements self))
      then Inl (DuplicateRequirementError name)
      else Inr (self\<lparr>data_requirements := data_requirements self @
                  [\<lparr>req_name = name, req_description = description, req_data_type = data_type,
                    req_units = units, req_optional = optional, req_default = default_value\<rparr>]\<rparr>))"

definition add_metadata_requirement ::
  "analysis \<Rightarrow> string \<Rightarrow> string \<Rightarrow> type_tag \<Rightarrow> string option \<Rightarrow> bool \<Rightarrow> pyvalue option
     \<Rightarrow> error + analysis" where
  "add_metadata_requirement self name description data_type units optional default_value =
     (if name \<in> set (map req_name (metadata_requirements self))
      then Inl (DuplicateRequirementError name)
      else Inr (self\<lparr>metadata_requirements := metadata_requirements self @
                  [\<lparr>req_name = name, req_description = description, req_data_type = data_type,
                    req_units = units, req_optional = optional, req_default = default_value\<rparr>]\<rparr>))"

text \<open>
  The unmet requirements of one namespace: the names of the descriptors that are not
  optional and have neither a bound value nor a default, in the order of declaration.
\<close>

definition unmet :: "'v requirement list \<Rightarrow> 'v dict \<Rightarrow> string list" where
  "unmet reqs vals =
     map req_name
       (filter (\<lambda>r. \<not> req_optional r \<and> map_of vals (req_name r) = None \<and> req_default r = None)
          reqs)"

definition list_unmet_requirements :: "analysis \<Rightarrow> string list" where
  "list_unmet_requirements self =
     unmet (data_requirements self) (data_values self) @
     unmet (metadata_requirements self) (metadata_values self)"

text \<open>The bound value if there is one, else the declared default, else \<open>RequirementUnmetError\<close>.\<close>

definition get_data_values :: "analysis \<Rightarrow> string \<Rightarrow> error + int ndarray" where
  "get_data_values self name =
     (case map_of (data_values self) name of
        Some v \<Rightarrow> Inr v
      | None \<Rightarrow>
          (case find (\<lambda>r. req_name r = name) (data_requirements self) of
             None \<Rightarrow> Inl (RequirementUnmetError name)
           | Some r \<Rightarrow>
               (case req_default r of
                  None \<Rightarrow> Inl (RequirementUnmetError name)
                | Some d \<Rightarrow> Inr d)))"

definition output_append :: "analysis \<Rightarrow> Table \<Rightarrow> analysis" where
  "output_append self t = self\<lparr>output := output self @ [t]\<rparr>"

text \<open>
  \<open>AnalysisMixin.validate_requirements\<close>, as the source has it: it logs, and returns \<open>True\<close>.
\<close>

definition validate_requirements :: "analysis \<Rightarrow> bool" where
  "validate_requirements self = True"

section \<open>Field illumination\<close>

text \<open>
  The functions of \<open>field_illum.py\<close> on an image of integers. Logging is left out. Lists of
  numpy integers are printed as numpy 1 prints them, by their decimal digits.
\<close>

definition get_norm_intensity_matrix :: "int ndarray \<Rightarrow> error + table_data" where
  "get_norm_intensity_matrix img =
     and_then (np_max img) (\<lambda>max_intensity.
     DataFrame \<lparr>shape = shape img, dtype = np_float64,
                items = map_nd (\<lambda>v. CFloat (FRound (FMul (FDiv (FInt v) (FInt max_intensity))
                                                       (FInt 100))))
                          (items img)\<rparr>)"

definition get_max_intensity_region_table :: "skimage \<Rightarrow> int ndarray \<Rightarrow> error + cell list dict" where
  "get_max_intensity_region_table sk img =
     and_then (np_max img) (\<lambda>max_intensity.
     let threshold_value = max_intensity - 1;
         labeled_foreground =
           img\<lparr>dtype := np_int64,
               items := map_nd (\<lambda>v. if v > threshold_value then 1 else 0) (items img)\<rparr>
     in
     and_then (regionprops sk labeled_foreground img) (\<lambda>properties.
     and_then (item properties 0 ''list index out of range'') (\<lambda>p0.
     and_then (item (centroid p0) 0 ''tuple index out of range'') (\<lambda>c0.
     and_then (item (centroid p0) 1 ''tuple index out of range'') (\<lambda>c1.
     let center_of_mass = CTuple [CInt (py_int c0), CInt (py_int c1)];
         nb_pixels = area p0
     in
     Inr [(''nb pixels'', [nb_pixels]),
          (''center of mass'', [center_of_mass]),
          (''max intensity'', [CInt max_intensity])])))))"

definition get_pixel_values_of_line ::
  "skimage \<Rightarrow> int ndarray \<Rightarrow> int \<Rightarrow> int \<Rightarrow> int \<Rightarrow> int \<Rightarrow> error + int list" where
  "get_pixel_values_of_line sk img x0 y0 xf yf =
     (let line = draw_line sk x0 y0 xf yf;
          rr = map fst line;
          cc = map snd line
      in take2 img rr cc)"

definition get_x_axis :: "int list \<Rightarrow> int list" where
  "get_x_axis y_axis =
     (let nb_pixels = int (length y_axis);
          x_axis = [py_round_half (- nb_pixels) .. py_round_half (nb_pixels + 2) - 1]
      in filter (\<lambda>x. x \<noteq> 0) x_axis)"

definition get_intensity_plot :: "skimage \<Rightarrow> int ndarray \<Rightarrow> error + cell list dict" where
  "get_intensity_plot sk img =
     and_then (unpack2 (shape img)) (\<lambda>(xmax, ymax).
     let xmax = int xmax - 1;
         ymax = int ymax - 1;
         xmid = py_round_half xmax;
         ymid = py_round_half ymax
     in
     and_then (get_pixel_values_of_line sk img 0 ymid xmax ymid) (\<lambda>V_seg.
     and_then (get_pixel_values_of_line sk img xmid 0 xmid ymax) (\<lambda>H_seg.
     and_then (get_pixel_values_of_line sk img 0 0 xmax ymax) (\<lambda>diagUD.
     and_then (get_pixel_values_of_line sk img xmax 0 0 ymax) (\<lambda>diagDU.
     Inr [(''x_axis_V_seg'', map CInt (get_x_axis V_seg)),
          (''y_axis_V_seg'', map CInt V_seg),
          (''x_axis_H_seg'', map CInt (get_x_axis H_seg)),
          (''y_axis_H_seg'', map CInt H_seg),
          (''x_axis_diagUD'', map CInt (get_x_axis diagUD)),
          (''y_axis_diagUD'', map CInt diagUD),
          (''x_axis_diagDU'', map CInt (get_x_axis diagDU)),
          (''y_axis_diagDU'', map CInt diagDU)])))))"

definition get_profile_statistics_table :: "int ndarray \<Rightarrow> error + cell list dict" where
  "get_profile_statistics_table img =
     and_then (np_max img) (\<lambda>max_intensity.
     and_then (unpack2 (np_where (ndim img) (map_nd (\<lambda>v. v = max_intensity) (items img))))
       (\<lambda>(xx_max, yy_max).
     and_then (item xx_max 0 ''index 0 is out of bounds for axis 0 with size 0'')
       (\<lambda>x_index_max_intensity.
     and_then (item yy_max 0 ''index 0 is out of bounds for axis 0 with size 0'')
       (\<lambda>y_index_max_intensity.
     and_then (item (shape img) 0 ''tuple index out of range'') (\<lambda>shape0.
     and_then (item (shape img) 1 ''tuple index out of range'') (\<lambda>shape1.
     let xs = [0, int shape0 div 2, - 1];
         ys = [0, int shape1 div 2, - 1];
         xx = concat (map (\<lambda>y. xs) ys);
         yy = concat (map (\<lambda>y. map (\<lambda>x. y) xs) ys)
     in
     and_then (take2 img xx yy) (\<lambda>max_intensities.
     let max_intensities_relative =
           map (\<lambda>v. FAround (FDiv (FInt v) (FInt max_intensity)) 2) max_intensities;
         max_intensities = max_intensities[4 := max_intensity];
         max_intensities_relative = max_intensities_relative[4 := FConst 1]
     in
     Inr [(''location'',
             map CStr
               [''top-left corner'',
                ''upper-middle pixel'',
                ''top-right corner'',
                ''left-middle pixel'',
                ''maximum found at ['' @ str_nat x_index_max_intensity @ '', '' @
                   str_nat y_index_max_intensity @ '']'',
                ''right-middle pixel'',
                ''bottom-left corner'',
                ''bottom-middle pixel'',
                ''bottom-right corner'']),
          (''intensity'', map CInt max_intensities),
          (''intensity relative to max'', map CFloat max_intensities_relative)])))))))"

text \<open>
  The constructor of \<open>FieldHomogeneityAnalysis\<close>: the base constructor, then the three
  requirements in the order of the source.
\<close>

definition FieldHomogeneityAnalysis_init :: "error + analysis" where
  "FieldHomogeneityAnalysis_init =
     and_then (add_data_requirement (Analysis_init ''This analysis returns...'')
                 ''image'' ''An image with lines as a numpy array'' T_ndarray None False None)
       (\<lambda>self.
     and_then (add_metadata_requirement self
                 ''bitDepth'' ''Camera bitDepth'' (T_tuple [T_float, T_float]) (Some ''bits'')
                 True None)
       (\<lambda>self.
     add_metadata_requirement self
       ''threshold'' ''Threshold for saturation'' T_int None True (Some (IntVal 10))))"

text \<open>
  \<open>FieldHomogeneityAnalysis.run\<close>. With unmet requirements it returns \<open>False\<close>; otherwise
  the four computations are made, then the four tables are appended, and it returns \<open>True\<close>.
  An exception leaves the instance as it was, no table having been appended yet.
\<close>

definition run :: "skimage \<Rightarrow> analysis \<Rightarrow> error + bool \<times> analysis" where
  "run sk self =
     (if length (list_unmet_requirements self) \<noteq> 0 then Inr (False, self)
      else
        and_then (get_data_values self ''image'') (\<lambda>image.
        and_then (get_norm_intensity_matrix image) (\<lambda>norm_intensity_data.
        and_then (get_max_intensity_region_table sk image) (\<lambda>max_intensity_region_table.
        and_then (get_intensity_plot sk image) (\<lambda>intensity_plot_data.
        and_then (get_profile_statistics_table image) (\<lambda>profile_stat_table.
        let self = output_append self
                     \<lparr>tbl_name = ''max_intensity_region_table'',
                      tbl_description = ''Dataframe containing coordinates'',
                      tbl_table = DictTable max_intensity_region_table\<rparr>;
            self = output_append self
                     \<lparr>tbl_name = ''norm_intensity_data'',
                      tbl_description = ''Dataframe containing coordinates'',
                      tbl_table = norm_intensity_data\<rparr>;
            self = output_append self
                     \<lparr>tbl_name = ''intensity_plot_data'',
                      tbl_description = ''Dataframe containing coordinates'',
                      tbl_table = DictTable intensity_plot_data\<rparr>;
            self = output_append self
                     \<lparr>tbl_name = ''profile_stat_table'',
                      tbl_description = ''Dataframe containing coordinates'',
                      tbl_table = DictTable profile_stat_table\<rparr>
        in Inr (True, self)))))))"


text \<open>
  For examples: the instance the constructor returns, a one-pixel image, and a stand-in for
  scikit-image that answers as the library does on a one-pixel image (a line from a pixel to
  itself is that pixel; the only region is the pixel, with centroid \<open>(0.0, 0.0)\<close>).
\<close>

definition new_FieldHomogeneityAnalysis :: analysis where
  "new_FieldHomogeneityAnalysis =
     \<lparr>output_description = ''This analysis returns...'',
      data_requirements =
        [\<lparr>req_name = ''image'', req_description = ''An image with lines as a numpy array'',
          req_data_type = T_ndarray, req_units = None, req_optional = False,
          req_default = None\<rparr>],
      metadata_requirements =
        [\<lparr>req_name = ''bitDepth'', req_description = ''Camera bitDepth'',
          req_data_type = T_tuple [T_float, T_float], req_units = Some ''bits'',
          req_optional = True, req_default = None\<rparr>,
         \<lparr>req_name = ''threshold'', req_description = ''Threshold for saturation'',
          req_data_type = T_int, req_units = None, req_optional = True,
          req_default = Some (IntVal 10)\<rparr>],
      data_values = [], metadata_values = [], output = []\<rparr>"



definition skimage_stub :: skimage where
  "skimage_stub =
     \<lparr>draw_line = (\<lambda>r0 c0 r1 c1. if r0 = r1 \<and> c0 = c1 then [(r0, c0)] else [(r0, c0), (r1, c1)]),
      regionprops = (\<lambda>label_image intensity_image. Inr [\<lparr>centroid = [0, 0], area = CInt 1\<rparr>])\<rparr>"

section \<open>Flattening and shape\<close>







lemma digit_val_digit_char: "d < 10 \<Longrightarrow> digit_val (digit_char d) = d"
proof -
  assume "d < 10"
  then have "d \<in> set [0..<10]" by simp
  then show ?thesis
    unfolding digit_char_def digit_val_def by (simp add: upt_rec) auto
qed

lemma read_nat_snoc: "read_nat (s @ [c]) = 10 * read_nat s + digit_val c"
  by (simp add: read_nat_def)

lemma read_nat_str_nat: "read_nat (str_nat n) = n"
proof (induction n rule: str_nat.induct)
  case (1 n)
  show ?case
  proof (cases "n < 10")
    case True
    then show ?thesis
      by (subst str_nat.simps) (simp add: read_nat_def digit_val_digit_char)
  next
    case False
    then have "read_nat (str_nat (n div 10)) = n div 10" using "1.IH" by simp
    with False show ?thesis
      by (subst str_nat.simps) (simp add: read_nat_snoc digit_val_digit_char)
  qed
qed






section \<open>The computations of the field illumination analysis\<close>

text \<open>
  On an image with at least one row and one column each of the four computations returns:
  the maximum exists and is an element of the image, so a pixel is labelled and a pixel
  equals the maximum, and every index used lies inside the image.
\<close>


lemma and_then_Inr [simp]: "and_then (Inr x) f = f x"
  by (simp add: and_then_def)

lemma and_then_Inl [simp]: "and_then (Inl e) f = Inl e"
  by (simp add: and_then_def)














lemma FieldHomogeneityAnalysis_init_eq:
  "FieldHomogeneityAnalysis_init = Inr new_FieldHomogeneityAnalysis"
  by (simp add: FieldHomogeneityAnalysis_init_def new_FieldHomogeneityAnalysis_def
      add_data_requirement_def add_metadata_requirement_def Analysis_init_def)

lemma unmet_new_instance: "list_unmet_requirements new_FieldHomogeneityAnalysis = [''image'']"
  by (simp add: list_unmet_requirements_def unmet_def new_FieldHomogeneityAnalysis_def)


section \<open>The mask conversion\<close>







section \<open>The image conversion\<close>

text \<open>
  Claim C3. For every array whose number of dimensions is neither 2 nor 5,
  \<open>numpy_to_inlined_image\<close> returns no image: it raises the error for an unsupported
  dimensionality (\<open>NotImplementedError\<close>), whose message prints the number of dimensions of
  the array in decimal, from which that number is read back.
\<close>

theorem image_unsupported_dimensionality:
  assumes "ndim A \<noteq> 2" and "ndim A \<noteq> 5"
  shows "numpy_to_inlined_image A name description image_url source_image_url =
           Inl (NotImplementedError
                  (''Array of dimension '' @ str_nat (ndim A) @
                   '' is not supported by this function''))
       \<and> read_nat (str_nat (ndim A)) = ndim A
       \<and> (\<forall>im. numpy_to_inlined_image A name description image_url source_image_url \<noteq> Inr im)"
  using assms by (simp add: numpy_to_inlined_image_def read_nat_str_nat)

theorem image_unsupported_dimensionality_witness:
  "ndim \<lparr>shape = [2, 1, 1], dtype = np_float64,
         items = Dim [Dim [Dim [Elem (0::int)]], Dim [Dim [Elem 1]]]\<rparr> \<noteq> 2
   \<and> numpy_to_inlined_image \<lparr>shape = [2, 1, 1], dtype = np_float64,
         items = Dim [Dim [Dim [Elem (0::int)]], Dim [Dim [Elem 1]]]\<rparr> None None None None =
       Inl (NotImplementedError ''Array of dimension 3 is not supported by this function'')"
proof -
  let ?A = "\<lparr>shape = [2, 1, 1], dtype = np_float64,
         items = Dim [Dim [Dim [Elem (0::int)]], Dim [Dim [Elem 1]]]\<rparr>"
  have nd: "ndim ?A = 3" by (simp add: ndim_def)
  have s: "str_nat 3 = ''3''" by (simp add: str_nat.simps digit_char_def)
  show ?thesis
    using image_unsupported_dimensionality [of ?A None None None None] nd s by simp
qed



section \<open>The table conversion\<close>



section \<open>The registries\<close>

text \<open>
  Claim C9. When two classes of the same \<open>__name__\<close> are registered one after the other with
  \<open>register_image_analysis\<close>, the second takes the place of the first: the name then maps to
  the second class, nothing is raised, and the other two registries are as they were. The
  same holds for \<open>register_dataset_analysis\<close> and \<open>register_progression_analysis\<close>, each on
  its own registry.
\<close>

theorem registration_overwrites:
  assumes "class_name c1 = class_name c2"
  shows "(let g' = snd (register_image_analysis c2 (snd (register_image_analysis c1 g)))
          in IMAGE_ANALYSIS_REGISTRY g' (class_name c1) = Some c2
           \<and> DATASET_ANALYSIS_REGISTRY g' = DATASET_ANALYSIS_REGISTRY g
           \<and> PROGRESSION_ANALYSIS_REGISTRY g' = PROGRESSION_ANALYSIS_REGISTRY g)
       \<and> (let g' = snd (register_dataset_analysis c2 (snd (register_dataset_analysis c1 g)))
          in DATASET_ANALYSIS_REGISTRY g' (class_name c1) = Some c2
           \<and> IMAGE_ANALYSIS_REGISTRY g' = IMAGE_ANALYSIS_REGISTRY g
           \<and> PROGRESSION_ANALYSIS_REGISTRY g' = PROGRESSION_ANALYSIS_REGISTRY g)
       \<and> (let g' = snd (register_progression_analysis c2 (snd (register_progression_analysis c1 g)))
          in PROGRESSION_ANALYSIS_REGISTRY g' (class_name c1) = Some c2
           \<and> IMAGE_ANALYSIS_REGISTRY g' = IMAGE_ANALYSIS_REGISTRY g
           \<and> DATASET_ANALYSIS_REGISTRY g' = DATASET_ANALYSIS_REGISTRY g)"
  using assms
  by (simp add: register_image_analysis_def register_dataset_analysis_def
      register_progression_analysis_def)

theorem registration_overwrites_witness:
  "class_name \<lparr>class_name = ''A'', class_id = 1\<rparr> = class_name \<lparr>class_name = ''A'', class_id = 2\<rparr>
   \<and> IMAGE_ANALYSIS_REGISTRY
       (snd (register_image_analysis \<lparr>class_name = ''A'', class_id = 2\<rparr>
          (snd (register_image_analysis \<lparr>class_name = ''A'', class_id = 1\<rparr>
             \<lparr>IMAGE_ANALYSIS_REGISTRY = Map.empty, DATASET_ANALYSIS_REGISTRY = Map.empty,
              PROGRESSION_ANALYSIS_REGISTRY = Map.empty\<rparr>)))) ''A''
       = Some \<lparr>class_name = ''A'', class_id = 2\<rparr>"
  using registration_overwrites [of "\<lparr>class_name = ''A'', class_id = 1\<rparr>"
      "\<lparr>class_name = ''A'', class_id = 2\<rparr>"
      "\<lparr>IMAGE_ANALYSIS_REGISTRY = Map.empty, DATASET_ANALYSIS_REGISTRY = Map.empty,
        PROGRESSION_ANALYSIS_REGISTRY = Map.empty\<rparr>"]
  by (simp add: Let_def)


section \<open>Validation and execution\<close>

text \<open>
  Claim C1. \<open>validate_requirements\<close> should return whether \<open>list_unmet_requirements\<close> is
  empty. The method in the source returns \<open>True\<close> whatever the instance: on a new
  \<open>FieldHomogeneityAnalysis\<close>, whose requirement \<open>image\<close> is unmet, it returns \<open>True\<close>.
\<close>

theorem validate_requirements_ignores_unmet:
  "list_unmet_requirements new_FieldHomogeneityAnalysis = [''image'']
   \<and> validate_requirements new_FieldHomogeneityAnalysis = True"
  by (simp add: validate_requirements_def list_unmet_requirements_def unmet_def
      new_FieldHomogeneityAnalysis_def)

text \<open>
  Claim C7. For every instance whose list of unmet requirements is not empty, \<open>run\<close> returns
  \<open>False\<close> without raising, and the instance, with its output sequence, is unchanged. The new
  \<open>FieldHomogeneityAnalysis\<close>, whose \<open>image\<close> is not bound, is such an instance.
\<close>

theorem run_with_unmet_requirements:
  assumes "list_unmet_requirements self \<noteq> []"
  shows "run sk self = Inr (False, self)"
  using assms by (simp add: run_def)

theorem run_with_unmet_requirements_witness:
  "list_unmet_requirements new_FieldHomogeneityAnalysis \<noteq> []
   \<and> run skimage_stub new_FieldHomogeneityAnalysis = Inr (False, new_FieldHomogeneityAnalysis)"
proof -
  have ne: "list_unmet_requirements new_FieldHomogeneityAnalysis \<noteq> []"
    by (simp add: unmet_new_instance)
  show ?thesis
    using ne run_with_unmet_requirements [OF ne, of skimage_stub] by simp
qed





end
